theory Spec2Isabelle
  imports Main
begin

section \<open>pyChemInfo: data model\<close>

text \<open>
  A shallow embedding of \<^verbatim>\<open>pyChemInfo.py\<close>. Python strings are modelled as
  \<open>string\<close> (the UTF-8 bytes of the text), a value that is either a string or Python's
  \<^verbatim>\<open>None\<close> as \<open>string option\<close>, an exception as a value of type \<open>error\<close>.
\<close>

datatype error =
    NameError string
  | AttributeError string
  | AssertionError string
  | TypeError string
  | IsADirectoryError string
  | FileNotFoundError string
  | PermissionError string
  | RemoteError string

text \<open>
  An element of \<^verbatim>\<open>xml.etree.ElementTree\<close>: its tag, its text (\<^verbatim>\<open>None\<close> when the
  element has none) and its children in document order.
\<close>

datatype element = Element (tag: string) (etext: "string option") (children: "element list")

text \<open>\<^verbatim>\<open>Element.iter()\<close>: the element itself, then its descendants, in document order.\<close>

fun iter :: "element \<Rightarrow> element list" where
  "iter (Element t x cs) = Element t x cs # concat (map iter cs)"

text \<open>
  Class \<^verbatim>\<open>Compound\<close>. The constructor sets every field to \<^verbatim>\<open>str()\<close>; the fields
  assigned from \<^verbatim>\<open>Element.text\<close> may later hold \<^verbatim>\<open>None\<close>.
\<close>

record Compound =
  imageUrl :: string
  formula :: string
  smiles :: "string option"
  name :: "string option"
  csid :: "string option"
  molWeight :: "string option"
  database :: string

definition Compound_init :: Compound where
  "Compound_init =
     \<lparr>imageUrl = '''', formula = '''', smiles = Some '''', name = Some '''',
      csid = Some '''', molWeight = Some '''', database = ''''\<rparr>"

section \<open>The remote side\<close>

text \<open>
  \<^verbatim>\<open>ET.parse(urllib.request.urlopen(url)).getroot()\<close>: the remote side is a function
  from the URL to the root of the parsed payload, or to the exception that the transport or
  the parser raises. Every call is recorded in the list of requested URLs, which is the
  state that the backends thread.
\<close>

type_synonym web = "string \<Rightarrow> error + element"

definition fetch :: "web \<Rightarrow> string \<Rightarrow> string list \<Rightarrow> (error + element) \<times> string list" where
  "fetch w url log = (w url, log @ [url])"

definition CHEMSPIDER_TOKEN :: string where
  "CHEMSPIDER_TOKEN = ''''"

text \<open>
  \<^verbatim>\<open>urllib.parse.quote(s)\<close> of the standard library with its default \<^verbatim>\<open>safe='/'\<close>:
  letters, digits and \<^verbatim>\<open>_.-~/\<close> are kept, every other byte of the UTF-8 encoding
  becomes \<^verbatim>\<open>%XX\<close> in upper-case hexadecimal.
\<close>

definition always_safe :: "char \<Rightarrow> bool" where
  "always_safe c =
     (c \<in> set (''ABCDEFGHIJKLMNOPQRSTUVWXYZ'' @ ''abcdefghijklmnopqrstuvwxyz'' @
                ''0123456789'' @ ''_.-~''))"

definition hex_digit :: "nat \<Rightarrow> char" where
  "hex_digit n = ''0123456789ABCDEF'' ! (n mod 16)"

definition quote_byte :: "char \<Rightarrow> string" where
  "quote_byte c =
     (if always_safe c \<or> c = CHR ''/'' then [c]
      else [CHR ''%'', hex_digit ((of_char c :: nat) div 16), hex_digit ((of_char c :: nat) mod 16)])"

definition quote :: "string \<Rightarrow> string" where
  "quote s = concat (map quote_byte s)"

section \<open>Backend PubChem\<close>

definition PubChem_name :: string where
  "PubChem_name = ''PubChem''"

definition ncbi :: "string \<Rightarrow> string" where
  "ncbi t = ''{http://www.ncbi.nlm.nih.gov}'' @ t"

text \<open>The two URLs that the backend builds with \<^verbatim>\<open>%\<close>; the query is inserted as it is.\<close>

definition PubChem_search_url :: "string \<Rightarrow> string" where
  "PubChem_search_url query =
     ''http://pubchem.ncbi.nlm.nih.gov/rest/pug/compound/name/'' @ query @ ''/cids/XML''"

definition PubChem_record_url :: "string \<Rightarrow> string" where
  "PubChem_record_url cid =
     ''http://pubchem.ncbi.nlm.nih.gov/rest/pug/compound/cid/'' @ cid @ ''/record/XML''"

text \<open>
  The body of the loop over \<^verbatim>\<open>props\<close>: \<^verbatim>\<open>label\<close> and \<^verbatim>\<open>value\<close> are the first
  elements below \<^verbatim>\<open>child\<close> with the respective tag, or \<^verbatim>\<open>None\<close>; reading
  \<^verbatim>\<open>.text\<close> of \<^verbatim>\<open>None\<close> raises \<^verbatim>\<open>AttributeError\<close>.
\<close>

definition text_of :: "element option \<Rightarrow> error + string option" where
  "text_of item =
     (case item of
        None \<Rightarrow> Inl (AttributeError ''text'')
      | Some e \<Rightarrow> Inr (etext e))"

definition PubChem_prop :: "element \<Rightarrow> Compound \<Rightarrow> error + Compound" where
  "PubChem_prop child compound =
     (let label = find (\<lambda>item. tag item = ncbi ''PC-Urn_label'') (iter child);
          val = find (\<lambda>item. tag item = ncbi ''PC-InfoData_value_sval'') (iter child)
      in case text_of label of
           Inl e \<Rightarrow> Inl e
         | Inr l1 \<Rightarrow>
             (case (if l1 = Some ''IUPAC Name''
                    then (case text_of val of
                            Inl e \<Rightarrow> Inl e
                          | Inr v \<Rightarrow> Inr (compound\<lparr>name := v\<rparr>))
                    else Inr compound) of
                Inl e \<Rightarrow> Inl e
              | Inr compound1 \<Rightarrow>
                  (case text_of label of
                     Inl e \<Rightarrow> Inl e
                   | Inr l2 \<Rightarrow>
                       (if l2 = Some ''SMILES''
                        then (case text_of val of
                                Inl e \<Rightarrow> Inl e
                              | Inr v \<Rightarrow> Inr (compound1\<lparr>smiles := v\<rparr>))
                        else Inr compound1))))"

fun PubChem_props :: "element list \<Rightarrow> Compound \<Rightarrow> error + Compound" where
  "PubChem_props [] compound = Inr compound"
| "PubChem_props (child # props) compound =
     (case PubChem_prop child compound of
        Inl e \<Rightarrow> Inl e
      | Inr compound1 \<Rightarrow> PubChem_props props compound1)"

text \<open>
  \<^verbatim>\<open>PubChem.getCompoundFromCID\<close>. The argument is \<^verbatim>\<open>child.text\<close>, a string or
  \<^verbatim>\<open>None\<close>; for \<^verbatim>\<open>None\<close> the assertion evaluates the name \<^verbatim>\<open>unicode\<close>, which
  Python 3 does not define.
\<close>

definition PubChem_getCompoundFromCID ::
  "web \<Rightarrow> string option \<Rightarrow> string list \<Rightarrow> (error + Compound) \<times> string list" where
  "PubChem_getCompoundFromCID w cid log =
     (case cid of
        None \<Rightarrow> (Inl (NameError ''unicode''), log)
      | Some c \<Rightarrow>
          (let compound = Compound_init\<lparr>database := PubChem_name, csid := Some c\<rparr>
           in case fetch w (PubChem_record_url c) log of
                (Inl e, log1) \<Rightarrow> (Inl e, log1)
              | (Inr root, log1) \<Rightarrow>
                  (PubChem_props (filter (\<lambda>el. tag el = ncbi ''PC-InfoData'') (iter root))
                     compound, log1)))"

text \<open>
  \<^verbatim>\<open>PubChem.search\<close>: the loop over \<^verbatim>\<open>root[::-1]\<close> leaves at its first element with
  \<^verbatim>\<open>break\<close>.
\<close>

definition PubChem_search ::
  "web \<Rightarrow> string \<Rightarrow> string list \<Rightarrow> (error + Compound list) \<times> string list" where
  "PubChem_search w query log =
     (case fetch w (PubChem_search_url query) log of
        (Inl e, log1) \<Rightarrow> (Inl e, log1)
      | (Inr root, log1) \<Rightarrow>
          (case rev (children root) of
             [] \<Rightarrow> (Inr [], log1)
           | child # _ \<Rightarrow>
               (case PubChem_getCompoundFromCID w (etext child) log1 of
                  (Inl e, log2) \<Rightarrow> (Inl e, log2)
                | (Inr compound, log2) \<Rightarrow> (Inr ([] @ [compound]), log2))))"

section \<open>Backend ChemSpider\<close>

definition ChemSpiderOD_name :: string where
  "ChemSpiderOD_name = ''ChemSpider''"

definition chemspider :: "string \<Rightarrow> string" where
  "chemspider t = ''{http://www.chemspider.com/}'' @ t"

definition ChemSpiderOD_search_url :: "string \<Rightarrow> string" where
  "ChemSpiderOD_search_url query =
     ''http://www.chemspider.com/Search.asmx/SimpleSearch?query='' @ quote query @
     ''&token='' @ CHEMSPIDER_TOKEN"

definition ChemSpiderOD_api_url :: "string \<Rightarrow> string" where
  "ChemSpiderOD_api_url c =
     ''http://www.chemspider.com/MassSpecAPI.asmx/GetExtendedCompoundInfo?CSID='' @ c @
     ''&token='' @ CHEMSPIDER_TOKEN"

text \<open>The \<^verbatim>\<open>if\<close>/\<^verbatim>\<open>elif\<close> chain over the tag of one child of the detail record.\<close>

definition ChemSpiderOD_field :: "element \<Rightarrow> Compound \<Rightarrow> Compound" where
  "ChemSpiderOD_field child compound =
     (if tag child = chemspider ''SMILES'' then compound\<lparr>smiles := etext child\<rparr>
      else if tag child = chemspider ''CSID'' then compound\<lparr>csid := etext child\<rparr>
      else if tag child = chemspider ''MolecularWeight'' then compound\<lparr>molWeight := etext child\<rparr>
      else if tag child = chemspider ''CommonName'' then compound\<lparr>name := etext child\<rparr>
      else compound)"

fun ChemSpiderOD_fields :: "element list \<Rightarrow> Compound \<Rightarrow> Compound" where
  "ChemSpiderOD_fields [] compound = compound"
| "ChemSpiderOD_fields (child # rest) compound =
     ChemSpiderOD_fields rest (ChemSpiderOD_field child compound)"

definition ChemSpiderOD_getCompoundFromCSID ::
  "web \<Rightarrow> string option \<Rightarrow> string list \<Rightarrow> (error + Compound) \<times> string list" where
  "ChemSpiderOD_getCompoundFromCSID w cs log =
     (case cs of
        None \<Rightarrow> (Inl (NameError ''unicode''), log)
      | Some c \<Rightarrow>
          (let compound = Compound_init\<lparr>database := ChemSpiderOD_name\<rparr>
           in case fetch w (ChemSpiderOD_api_url c) log of
                (Inl e, log1) \<Rightarrow> (Inl e, log1)
              | (Inr root, log1) \<Rightarrow>
                  (Inr (ChemSpiderOD_fields (children root) compound), log1)))"

text \<open>The loop of \<^verbatim>\<open>ChemSpiderOD.search\<close> over the children of the search response.\<close>

fun ChemSpiderOD_collect ::
  "web \<Rightarrow> element list \<Rightarrow> Compound list \<Rightarrow> string list \<Rightarrow> (error + Compound list) \<times> string list" where
  "ChemSpiderOD_collect w [] compounds log = (Inr compounds, log)"
| "ChemSpiderOD_collect w (child # rest) compounds log =
     (case ChemSpiderOD_getCompoundFromCSID w (etext child) log of
        (Inl e, log1) \<Rightarrow> (Inl e, log1)
      | (Inr compound, log1) \<Rightarrow> ChemSpiderOD_collect w rest (compounds @ [compound]) log1)"

definition ChemSpiderOD_search ::
  "web \<Rightarrow> string \<Rightarrow> string list \<Rightarrow> (error + Compound list) \<times> string list" where
  "ChemSpiderOD_search w query log =
     (case fetch w (ChemSpiderOD_search_url query) log of
        (Inl e, log1) \<Rightarrow> (Inl e, log1)
      | (Inr root, log1) \<Rightarrow> ChemSpiderOD_collect w (children root) [] log1)"

section \<open>The coordinator\<close>

text \<open>
  A backend as \<^verbatim>\<open>ChemInfo.search\<close> sees it: a class derived from
  \<^verbatim>\<open>AbstractOnlineDatabase\<close>, with its \<^verbatim>\<open>name\<close> and its \<^verbatim>\<open>search\<close>, which
  returns a list or raises and may change the state \<open>'s\<close>.
\<close>

record 's OnlineDatabase =
  odb_name :: string
  odb_search :: "string \<Rightarrow> 's \<Rightarrow> (error + Compound list) \<times> 's"

text \<open>
  \<^verbatim>\<open>ChemInfo.search\<close>, for the list of backends that \<^verbatim>\<open>getOnlineDatabases\<close> returns.
  The \<^verbatim>\<open>continue\<close> is the last statement of the loop body: both branches of the test go
  on with the next backend.
\<close>

fun ChemInfo_search_loop ::
  "'s OnlineDatabase list \<Rightarrow> string \<Rightarrow> bool \<Rightarrow> Compound list \<Rightarrow> 's \<Rightarrow> (error + Compound list) \<times> 's" where
  "ChemInfo_search_loop [] query first compounds s = (Inr compounds, s)"
| "ChemInfo_search_loop (odb # odbs) query first compounds s =
     (case odb_search odb query s of
        (Inl e, s1) \<Rightarrow> (Inl e, s1)
      | (Inr found, s1) \<Rightarrow>
          (let compounds1 = compounds @ found
           in if first \<and> length compounds1 > 0
              then ChemInfo_search_loop odbs query first compounds1 s1
              else ChemInfo_search_loop odbs query first compounds1 s1))"

definition ChemInfo_search ::
  "'s OnlineDatabase list \<Rightarrow> string \<Rightarrow> bool \<Rightarrow> 's \<Rightarrow> (error + Compound list) \<times> 's" where
  "ChemInfo_search odbs query first s = ChemInfo_search_loop odbs query first [] s"

text \<open>
  What the backends return when their \<^verbatim>\<open>search\<close> methods are called one after the
  other, in the order of the list, each in the state that the one before it left: the list
  of their result lists and the last state, or \<open>None\<close> when one of them raises. This is
  the premise of the statement about concatenation, not a part of the program.
\<close>

fun backend_results ::
  "'s OnlineDatabase list \<Rightarrow> string \<Rightarrow> 's \<Rightarrow> (Compound list list \<times> 's) option" where
  "backend_results [] query s = Some ([], s)"
| "backend_results (odb # odbs) query s =
     (case odb_search odb query s of
        (Inl e, s1) \<Rightarrow> None
      | (Inr found, s1) \<Rightarrow>
          (case backend_results odbs query s1 of
             None \<Rightarrow> None
           | Some (rs, s2) \<Rightarrow> Some (found # rs, s2)))"

text \<open>
  \<^verbatim>\<open>ChemInfo.getOnlineDatabases\<close>: the subclasses of \<^verbatim>\<open>AbstractOnlineDatabase\<close> in the
  order of their definition.
\<close>

definition PubChem :: "web \<Rightarrow> string list OnlineDatabase" where
  "PubChem w = \<lparr>odb_name = PubChem_name, odb_search = PubChem_search w\<rparr>"

definition ChemSpiderOD :: "web \<Rightarrow> string list OnlineDatabase" where
  "ChemSpiderOD w = \<lparr>odb_name = ChemSpiderOD_name, odb_search = ChemSpiderOD_search w\<rparr>"

definition ChemInfo_getOnlineDatabases :: "web \<Rightarrow> string list OnlineDatabase list" where
  "ChemInfo_getOnlineDatabases w = [PubChem w, ChemSpiderOD w]"

section \<open>The command line program\<close>

text \<open>
  What \<^verbatim>\<open>main\<close> can see and change: the text printed so far, the URLs requested so
  far, and the file system. The file system is flat: a path is absent, a file with its
  contents or a directory. Where the operating system refuses to open a path for writing
  (a missing parent directory, no permission), the field \<open>refused\<close> holds the exception
  that \<^verbatim>\<open>open\<close> raises there.
\<close>

datatype fsentry = File string | Directory

record sys =
  stdout :: string
  requests :: "string list"
  files :: "string \<rightharpoonup> fsentry"
  refused :: "string \<rightharpoonup> error"

text \<open>
  \<^verbatim>\<open>open(path, "w")\<close>: the exception it raises, or \<open>None\<close> when the file is opened. The
  empty path names no file, a directory cannot be opened for writing, and everything else
  is for the operating system to decide.
\<close>

definition open_w :: "sys \<Rightarrow> string \<Rightarrow> error option" where
  "open_w st path =
     (if path = [] then Some (FileNotFoundError path)
      else (case files st path of
              Some Directory \<Rightarrow> Some (IsADirectoryError path)
            | _ \<Rightarrow> refused st path))"

text \<open>How a run of \<^verbatim>\<open>main\<close> ends: it returns, leaves by \<^verbatim>\<open>sys.exit\<close>, or raises.\<close>

datatype outcome = Returned | SysExit int | Raised error

definition print :: "string \<Rightarrow> sys \<Rightarrow> sys" where
  "print s st = st\<lparr>stdout := stdout st @ s @ [CHR 0x0A]\<rparr>"

definition print_end :: "string \<Rightarrow> sys \<Rightarrow> sys" where
  "print_end s st = st\<lparr>stdout := stdout st @ s\<rparr>"

text \<open>\<^verbatim>\<open>"%s" % x\<close> for a value that is a string or \<^verbatim>\<open>None\<close>.\<close>

definition str :: "string option \<Rightarrow> string" where
  "str x = (case x of None \<Rightarrow> ''None'' | Some s \<Rightarrow> s)"

text \<open>\<^verbatim>\<open>sep.join(xs)\<close> and \<^verbatim>\<open>s.split(",")\<close>.\<close>

fun join :: "string \<Rightarrow> string list \<Rightarrow> string" where
  "join sep [] = []"
| "join sep [x] = x"
| "join sep (x # y # ys) = x @ sep @ join sep (y # ys)"

fun split_comma :: "string \<Rightarrow> string list" where
  "split_comma [] = [[]]"
| "split_comma (c # cs) =
     (if c = CHR '','' then [] # split_comma cs
      else (case split_comma cs of
              [] \<Rightarrow> [[c]]
            | part # parts \<Rightarrow> (c # part) # parts))"

record Options =
  outputName :: "string option"
  forceOutput :: bool
  names :: "string list option"
  verbose :: bool

text \<open>
  The loop over the options that \<^verbatim>\<open>getopt\<close> returned, and its body. \<^verbatim>\<open>o in ("-f")\<close> tests whether
  \<^verbatim>\<open>o\<close> is a substring of \<^verbatim>\<open>"-f"\<close>; \<^verbatim>\<open>usage\<close> is not defined anywhere in the
  module, so calling it raises \<^verbatim>\<open>NameError\<close>.
\<close>

definition main_option ::
  "string list \<Rightarrow> string \<times> string \<Rightarrow> Options \<Rightarrow> sys \<Rightarrow> (outcome + Options) \<times> sys" where
  "main_option dbnames oa opts st =
     (let opt = fst oa; a = snd oa
      in if opt = ''-v'' then (Inr (opts\<lparr>verbose := True\<rparr>), st)
         else if opt \<in> set [[], ''-'', ''f'', ''-f'']
           then (Inr (opts\<lparr>forceOutput := True\<rparr>), st)
         else if opt \<in> set [''-l'', ''--list-databases'']
           then (Inl (SysExit 0),
                 print (join '','' dbnames)
                   (print_end ''List of available Online Database Modules: '' st))
         else if opt \<in> set [''-n'', ''--names'']
           then (Inr (opts\<lparr>names := Some (split_comma a)\<rparr>), st)
         else if opt \<in> set [''-h'', ''--help''] then (Inl (Raised (NameError ''usage'')), st)
         else if opt \<in> set [''-o'', ''--output'']
           then (Inr (opts\<lparr>outputName := Some a\<rparr>), st)
         else (Inl (Raised (AssertionError ''unhandle option'')), st))"

fun main_options ::
  "string list \<Rightarrow> (string \<times> string) list \<Rightarrow> Options \<Rightarrow> sys \<Rightarrow> (outcome + Options) \<times> sys" where
  "main_options dbnames [] opts st = (Inr opts, st)"
| "main_options dbnames (oa # rest) opts st =
     (case main_option dbnames oa opts st of
        (Inl out, st1) \<Rightarrow> (Inl out, st1)
      | (Inr opts1, st1) \<Rightarrow> main_options dbnames rest opts1 st1)"

text \<open>
  The loop over the names. \<^verbatim>\<open>compounds\<close> is overwritten by every search. When a
  search finds nothing, the arguments of the \<^verbatim>\<open>print\<close> are evaluated first, and
  \<^verbatim>\<open>odb\<close> is neither a local name of \<^verbatim>\<open>main\<close> nor a global one.
\<close>

fun main_search ::
  "web \<Rightarrow> string list \<Rightarrow> Compound list option \<Rightarrow> sys \<Rightarrow> (error + Compound list option) \<times> sys" where
  "main_search w [] compounds st = (Inr compounds, st)"
| "main_search w (nm # rest) compounds st =
     (case ChemInfo_search (ChemInfo_getOnlineDatabases w) nm True (requests st) of
        (Inl e, log) \<Rightarrow> (Inl e, st\<lparr>requests := log\<rparr>)
      | (Inr found, log) \<Rightarrow>
          (if length found < 1 then (Inl (NameError ''odb''), st\<lparr>requests := log\<rparr>)
           else main_search w rest (Some found) (st\<lparr>requests := log\<rparr>)))"

text \<open>The block of four lines that is printed, and written, for one compound.\<close>

definition block :: "Compound \<Rightarrow> string list" where
  "block compound =
     [''---------'',
      ''Database: '' @ database compound,
      ''Name:     '' @ str (name compound),
      ''CSID:     '' @ str (csid compound),
      ''SMILES:   '' @ str (smiles compound)]"

definition main_print :: "Compound list \<Rightarrow> sys \<Rightarrow> sys" where
  "main_print compounds st = fold print (concat (map block compounds)) st"

text \<open>The last step of \<^verbatim>\<open>main\<close>: writing the output file if a file name was given.\<close>

definition main_output :: "string option \<Rightarrow> bool \<Rightarrow> Compound list \<Rightarrow> sys \<Rightarrow> outcome \<times> sys" where
  "main_output out force compounds st =
     (case out of
        None \<Rightarrow> (Returned, st)
      | Some path \<Rightarrow>
          (if files st path \<noteq> None \<and> \<not> force
           then (Returned, print ''The file already exist. I won't write any data.'' st)
           else (case open_w st path of
                   Some e \<Rightarrow> (Raised e, st)
                 | None \<Rightarrow>
                     (Returned,
                      st\<lparr>files := (files st)(path \<mapsto>
                         File (concat (map (\<lambda>l. l @ [CHR 0x0A]) (concat (map block compounds))) @
                               ''---------''))\<rparr>))))"

text \<open>
  \<^verbatim>\<open>main\<close>, from the result of \<^verbatim>\<open>getopt.getopt\<close>: the message of a
  \<^verbatim>\<open>GetoptError\<close>, or the list of options.
\<close>

definition main :: "web \<Rightarrow> string + (string \<times> string) list \<Rightarrow> sys \<Rightarrow> outcome \<times> sys" where
  "main w parsed st =
     (case parsed of
        Inl msg \<Rightarrow> (Raised (NameError ''usage''), print msg st)
      | Inr optlist \<Rightarrow>
          (case main_options (map odb_name (ChemInfo_getOnlineDatabases w)) optlist
                  \<lparr>outputName = None, forceOutput = False, names = None, verbose = False\<rparr> st of
             (Inl out, st1) \<Rightarrow> (out, st1)
           | (Inr opts, st1) \<Rightarrow>
               (case names opts of
                  None \<Rightarrow> (SysExit 2, print ''You are pleased to specify one or more name(s).'' st1)
                | Some ns \<Rightarrow>
                    (case main_search w ns None st1 of
                       (Inl e, st2) \<Rightarrow> (Raised e, st2)
                     | (Inr None, st2) \<Rightarrow>
                         (Raised (TypeError ''NoneType''), print [] st2)
                     | (Inr (Some compounds), st2) \<Rightarrow>
                         main_output (outputName opts) (forceOutput opts) compounds
                           (print (''---------'' @ [CHR 0x0A])
                              (main_print compounds (print [] st2)))))))"

section \<open>Stubbed remote sides\<close>

text \<open>A remote side that answers the listed URLs and fails on every other one.\<close>

definition stub :: "(string \<times> element) list \<Rightarrow> web" where
  "stub table url =
     (case map_of table url of
        None \<Rightarrow> Inl (RemoteError url)
      | Some root \<Rightarrow> Inr root)"

definition info_data :: "string \<Rightarrow> string \<Rightarrow> element" where
  "info_data label val =
     Element (ncbi ''PC-InfoData'') None
       [Element (ncbi ''PC-InfoData_urn'') None
          [Element (ncbi ''PC-Urn'') None
             [Element (ncbi ''PC-Urn_label'') (Some label) []]],
        Element (ncbi ''PC-InfoData_value'') None
          [Element (ncbi ''PC-InfoData_value_sval'') (Some val) []]]"

definition water_record :: element where
  "water_record =
     Element (ncbi ''PC-Compounds'') None
       [Element (ncbi ''PC-Compound'') None
          [Element (ncbi ''PC-Compound_props'') None
             [info_data ''IUPAC Name'' ''oxidane'', info_data ''SMILES'' ''O'']]]"

definition water_info :: "string \<Rightarrow> element" where
  "water_info c =
     Element (chemspider ''ExtendedCompoundInfo'') None
       [Element (chemspider ''CSID'') (Some c) [],
        Element (chemspider ''MF'') (Some ''H_{2}O'') [],
        Element (chemspider ''SMILES'') (Some ''O'') [],
        Element (chemspider ''MolecularWeight'') (Some ''18.0153'') [],
        Element (chemspider ''CommonName'') (Some ''Water'') []]"

definition water_cids :: element where
  "water_cids =
     Element (ncbi ''IdentifierList'') None
       [Element (ncbi ''CID'') (Some ''961'') [],
        Element (ncbi ''CID'') (Some ''22247451'') [],
        Element (ncbi ''CID'') (Some ''962'') []]"

definition water_csids :: element where
  "water_csids =
     Element (chemspider ''ArrayOfInt'') None
       [Element (chemspider ''int'') (Some ''937'') [],
        Element (chemspider ''int'') (Some ''140526'') []]"

definition water_table :: "(string \<times> element) list" where
  "water_table =
     [(PubChem_search_url ''water'', water_cids),
      (PubChem_record_url ''962'', water_record),
      (ChemSpiderOD_search_url ''water'', water_csids),
      (ChemSpiderOD_api_url ''937'', water_info ''937''),
      (ChemSpiderOD_api_url ''140526'', water_info ''140526'')]"

definition water_web :: web where
  "water_web = stub water_table"

text \<open>The records and the requests of a search for water on that remote side.\<close>

definition water_pubchem :: Compound where
  "water_pubchem =
     \<lparr>imageUrl = [], formula = [], smiles = Some ''O'', name = Some ''oxidane'',
      csid = Some ''962'', molWeight = Some [], database = ''PubChem''\<rparr>"

definition water_chemspider :: "string \<Rightarrow> Compound" where
  "water_chemspider c =
     \<lparr>imageUrl = [], formula = [], smiles = Some ''O'', name = Some ''Water'',
      csid = Some c, molWeight = Some ''18.0153'', database = ''ChemSpider''\<rparr>"

definition water_requests :: "string list" where
  "water_requests =
     [PubChem_search_url ''water'', PubChem_record_url ''962'',
      ChemSpiderOD_search_url ''water'', ChemSpiderOD_api_url ''937'',
      ChemSpiderOD_api_url ''140526'']"

text \<open>A remote side on which no search for the query finds an id.\<close>

definition no_cids :: element where
  "no_cids = Element (ncbi ''IdentifierList'') None []"

definition no_csids :: element where
  "no_csids = Element (chemspider ''ArrayOfInt'') None []"

definition empty_table :: "string \<Rightarrow> (string \<times> element) list" where
  "empty_table query =
     [(PubChem_search_url query, no_cids), (ChemSpiderOD_search_url query, no_csids)]"

definition empty_web :: "string \<Rightarrow> web" where
  "empty_web query = stub (empty_table query)"

text \<open>A remote side that knows water and has no id for \<^verbatim>\<open>xyz\<close>.\<close>

definition mixed_web :: web where
  "mixed_web = stub (empty_table ''xyz'' @ water_table)"

text \<open>
  A remote side whose detail record for the id 962 parses, but whose
  \<^verbatim>\<open>PC-InfoData\<close> node has no \<^verbatim>\<open>PC-Urn_label\<close> below it.
\<close>

definition unlabelled_record :: element where
  "unlabelled_record =
     Element (ncbi ''PC-Compounds'') None
       [Element (ncbi ''PC-InfoData'') None
          [Element (ncbi ''PC-InfoData_value'') None
             [Element (ncbi ''PC-InfoData_value_sval'') (Some ''O'') []]]]"

definition unlabelled_web :: web where
  "unlabelled_web =
     stub
       [(PubChem_search_url ''water'',
         Element (ncbi ''IdentifierList'') None [Element (ncbi ''CID'') (Some ''962'') []]),
        (PubChem_record_url ''962'', unlabelled_record)]"

text \<open>
  A remote side that knows the ids of water, but answers neither the request for the
  PubChem record of the last id 962 nor the request for the ChemSpider record of the
  second of the three ids 937, 938 and 939.
\<close>

definition three_csids :: element where
  "three_csids =
     Element (chemspider ''ArrayOfInt'') None
       [Element (chemspider ''int'') (Some ''937'') [],
        Element (chemspider ''int'') (Some ''938'') [],
        Element (chemspider ''int'') (Some ''939'') []]"

definition flaky_web :: web where
  "flaky_web =
     stub
       [(PubChem_search_url ''water'', water_cids),
        (ChemSpiderOD_search_url ''water'', three_csids),
        (ChemSpiderOD_api_url ''937'', water_info ''937''),
        (ChemSpiderOD_api_url ''939'', water_info ''939'')]"

text \<open>An empty system, and one in which the file \<^verbatim>\<open>out.txt\<close> exists.\<close>

definition sys0 :: sys where
  "sys0 = \<lparr>stdout = [], requests = [], files = Map.empty, refused = Map.empty\<rparr>"

definition sys1 :: sys where
  "sys1 =
     \<lparr>stdout = [], requests = [], files = [''out.txt'' \<mapsto> File ''old''],
      refused = Map.empty\<rparr>"

section \<open>The coordinator: concatenation\<close>


lemma search_loop_concat:
  "backend_results odbs query s = Some (rs, s') \<Longrightarrow>
   ChemInfo_search_loop odbs query first acc s = (Inr (acc @ concat rs), s')"
  by (induction odbs arbitrary: acc s rs)
     (auto split: prod.splits sum.splits option.splits)

text \<open>
  Claim C1. For every query and every list of registered backends, if backend \<open>i\<close>
  returns the list \<open>rs ! i\<close> when the backends are called in order, then
  \<^verbatim>\<open>ChemInfo.search\<close> with \<^verbatim>\<open>first\<close> at its default \<^verbatim>\<open>False\<close> returns the
  concatenation of these lists in that order, whose length is the sum of their lengths.
\<close>

theorem C1_search_concatenates:
  assumes "backend_results odbs query s = Some (rs, s')"
  shows "ChemInfo_search odbs query False s = (Inr (concat rs), s') \<and>
         length (concat rs) = sum_list (map length rs)"
  using assms by (simp add: ChemInfo_search_def search_loop_concat length_concat)

theorem C1_search_concatenates_witness:
  "backend_results (ChemInfo_getOnlineDatabases water_web) ''water'' [] =
     Some ([[water_pubchem], [water_chemspider ''937'', water_chemspider ''140526'']],
           water_requests) \<and>
   ChemInfo_search (ChemInfo_getOnlineDatabases water_web) ''water'' False [] =
     (Inr [water_pubchem, water_chemspider ''937'', water_chemspider ''140526''],
      water_requests) \<and>
   length [water_pubchem, water_chemspider ''937'', water_chemspider ''140526''] = 1 + 2"
proof -
  have h: "backend_results (ChemInfo_getOnlineDatabases water_web) ''water'' [] =
     Some ([[water_pubchem], [water_chemspider ''937'', water_chemspider ''140526'']],
           water_requests)"
    by code_simp
  from C1_search_concatenates [OF h] h show ?thesis by simp
qed

section \<open>The backends: which detail records are fetched\<close>

lemma PubChem_getCompoundFromCID_log:
  "snd (PubChem_getCompoundFromCID w (Some cid) log) = log @ [PubChem_record_url cid]"
  by (simp add: PubChem_getCompoundFromCID_def fetch_def Let_def split: sum.splits)

lemma ChemSpiderOD_getCompoundFromCSID_log:
  "snd (ChemSpiderOD_getCompoundFromCSID w (Some c) log) = log @ [ChemSpiderOD_api_url c]"
  by (simp add: ChemSpiderOD_getCompoundFromCSID_def fetch_def Let_def split: sum.splits)

lemma ChemSpiderOD_getCompoundFromCSID_fst:
  "fst (ChemSpiderOD_getCompoundFromCSID w cs log) =
   fst (ChemSpiderOD_getCompoundFromCSID w cs [])"
  by (simp add: ChemSpiderOD_getCompoundFromCSID_def fetch_def Let_def
        split: sum.splits option.splits)

lemma PubChem_search_last:
  assumes "w (PubChem_search_url query) = Inr root"
    and "children root = cs @ [c]"
  shows "PubChem_search w query log =
           (case PubChem_getCompoundFromCID w (etext c) (log @ [PubChem_search_url query]) of
              (Inl e, log2) \<Rightarrow> (Inl e, log2)
            | (Inr compound, log2) \<Rightarrow> (Inr [compound], log2))"
  using assms by (simp add: PubChem_search_def fetch_def split: prod.splits sum.splits)

text \<open>
  Claim C3, with the condition on the detail step that it needs. When the search response
  of PubChem has the id elements \<open>c1, ..., cn\<close> with \<open>n \<ge> 1\<close> below its root,
  \<^verbatim>\<open>PubChem.search\<close> requests the search URL and then exactly one detail record, the
  one of the last id \<open>cn\<close>; and if \<^verbatim>\<open>getCompoundFromCID\<close> returns a record for
  that id, the search returns the list of exactly this one record.
\<close>

theorem C3_PubChem_last_id:
  assumes "w (PubChem_search_url query) = Inr root"
    and "map etext (children root) = map Some ids"
    and "ids \<noteq> []"
  shows "snd (PubChem_search w query log) =
           log @ [PubChem_search_url query, PubChem_record_url (last ids)] \<and>
         (\<forall>compound.
            fst (PubChem_getCompoundFromCID w (Some (last ids))
                   (log @ [PubChem_search_url query])) = Inr compound \<longrightarrow>
            fst (PubChem_search w query log) = Inr [compound])"
proof -
  from assms(2,3) have "children root \<noteq> []" by auto
  then obtain cs c where split: "children root = cs @ [c]"
    by (metis rev_exhaust)
  with assms(2,3) have c: "etext c = Some (last ids)"
    by (metis last_map last_snoc list.map_disc_iff)
  let ?d = "PubChem_getCompoundFromCID w (Some (last ids)) (log @ [PubChem_search_url query])"
  have run: "PubChem_search w query log =
      (case ?d of
         (Inl e, log2) \<Rightarrow> (Inl e, log2)
       | (Inr compound, log2) \<Rightarrow> (Inr [compound], log2))"
    using PubChem_search_last [of w query root cs c log] assms(1) split c by simp
  have "snd ?d = log @ [PubChem_search_url query, PubChem_record_url (last ids)]"
    by (simp add: PubChem_getCompoundFromCID_log)
  then show ?thesis
    unfolding run by (cases ?d) (auto split: sum.splits)
qed

theorem C3_PubChem_last_id_witness:
  "water_web (PubChem_search_url ''water'') = Inr water_cids \<and>
   map etext (children water_cids) = map Some [''961'', ''22247451'', ''962''] \<and>
   snd (PubChem_search water_web ''water'' []) =
     [PubChem_search_url ''water'', PubChem_record_url ''962''] \<and>
   fst (PubChem_search water_web ''water'' []) = Inr [water_pubchem]"
proof -
  have h1: "water_web (PubChem_search_url ''water'') = Inr water_cids"
    by code_simp
  have h2: "map etext (children water_cids) = map Some [''961'', ''22247451'', ''962'']"
    by (simp add: water_cids_def)
  have h3: "[''961'', ''22247451'', ''962''] \<noteq> []"
    by simp
  have d: "fst (PubChem_getCompoundFromCID water_web (Some ''962'')
                  [PubChem_search_url ''water'']) = Inr water_pubchem"
    by code_simp
  from C3_PubChem_last_id
         [of water_web "''water''" water_cids "[''961'', ''22247451'', ''962'']" "[]"]
       d h1 h2 h3
  show ?thesis by simp
qed

text \<open>
  Without the condition on the detail step the statement of C3 does not hold: on a remote
  side that answers the search with the three ids of water and does not answer the
  request for the record of the last one, \<^verbatim>\<open>PubChem.search\<close> makes that one request and
  then raises what the transport raised; no list is returned.
\<close>

theorem C3_PubChem_detail_fails:
  "flaky_web (PubChem_search_url ''water'') = Inr water_cids \<and>
   map etext (children water_cids) = map Some [''961'', ''22247451'', ''962''] \<and>
   PubChem_search flaky_web ''water'' [] =
     (Inl (RemoteError (PubChem_record_url ''962'')),
      [PubChem_search_url ''water'', PubChem_record_url ''962''])"
  by code_simp

lemma ChemSpiderOD_collect_all:
  assumes "list_all2
             (\<lambda>i compound.
                \<forall>l. fst (ChemSpiderOD_getCompoundFromCSID w (Some i) l) = Inr compound)
             ids rs"
    and "map etext cs = map Some ids"
  shows "ChemSpiderOD_collect w cs acc log =
           (Inr (acc @ rs), log @ map ChemSpiderOD_api_url ids)"
  using assms
proof (induction cs arbitrary: ids rs acc log)
  case Nil
  then show ?case by simp
next
  case (Cons child rest)
  from Cons.prems(2) obtain i ids' where ids: "ids = i # ids'" and t: "etext child = Some i"
    and rest: "map etext rest = map Some ids'"
    by (cases ids) auto
  from Cons.prems(1) ids obtain r rs' where rs: "rs = r # rs'"
    and r: "\<forall>l. fst (ChemSpiderOD_getCompoundFromCSID w (Some i) l) = Inr r"
    and all: "list_all2
                (\<lambda>i compound.
                   \<forall>l. fst (ChemSpiderOD_getCompoundFromCSID w (Some i) l) = Inr compound)
                ids' rs'"
    by (cases rs) auto
  have step: "ChemSpiderOD_getCompoundFromCSID w (Some i) log =
                (Inr r, log @ [ChemSpiderOD_api_url i])"
    using r ChemSpiderOD_getCompoundFromCSID_log [of w i log]
    by (metis prod.collapse)
  show ?case
    using Cons.IH [OF all rest] by (simp add: t step ids rs)
qed

text \<open>
  Claim C4, with the condition on the detail steps that it needs. When the search response
  of ChemSpider has the id elements \<open>c1, ..., cn\<close> below its root and
  \<^verbatim>\<open>getCompoundFromCSID\<close> returns a record for every one of them, the record
  \<open>rs ! i\<close> for the \<open>i\<close>-th id, \<^verbatim>\<open>ChemSpiderOD.search\<close> requests the search URL and
  then one detail record for every id, in the order of the ids, and returns the \<open>n\<close>
  records in that order.
\<close>

theorem C4_ChemSpiderOD_all_ids:
  assumes "w (ChemSpiderOD_search_url query) = Inr root"
    and "map etext (children root) = map Some ids"
    and "list_all2
           (\<lambda>i compound.
              \<forall>l. fst (ChemSpiderOD_getCompoundFromCSID w (Some i) l) = Inr compound)
           ids rs"
  shows "ChemSpiderOD_search w query log =
           (Inr rs, log @ ChemSpiderOD_search_url query # map ChemSpiderOD_api_url ids) \<and>
         length rs = length ids"
  using assms ChemSpiderOD_collect_all [OF assms(3) assms(2), of "[]"]
  by (simp add: ChemSpiderOD_search_def fetch_def list_all2_lengthD)

theorem C4_ChemSpiderOD_all_ids_witness:
  "water_web (ChemSpiderOD_search_url ''water'') = Inr water_csids \<and>
   map etext (children water_csids) = map Some [''937'', ''140526''] \<and>
   ChemSpiderOD_search water_web ''water'' [] =
     (Inr [water_chemspider ''937'', water_chemspider ''140526''],
      [ChemSpiderOD_search_url ''water'', ChemSpiderOD_api_url ''937'',
       ChemSpiderOD_api_url ''140526''])"
proof -
  have h1: "water_web (ChemSpiderOD_search_url ''water'') = Inr water_csids"
    by code_simp
  have h2: "map etext (children water_csids) = map Some [''937'', ''140526'']"
    by (simp add: water_csids_def)
  have d1: "fst (ChemSpiderOD_getCompoundFromCSID water_web (Some ''937'') []) =
              Inr (water_chemspider ''937'')"
    by code_simp
  have d2: "fst (ChemSpiderOD_getCompoundFromCSID water_web (Some ''140526'') []) =
              Inr (water_chemspider ''140526'')"
    by code_simp
  have h3: "list_all2
       (\<lambda>i compound.
          \<forall>l. fst (ChemSpiderOD_getCompoundFromCSID water_web (Some i) l) = Inr compound)
       [''937'', ''140526''] [water_chemspider ''937'', water_chemspider ''140526'']"
  proof -
    have "\<forall>l. fst (ChemSpiderOD_getCompoundFromCSID water_web (Some ''937'') l) =
                Inr (water_chemspider ''937'')"
      using d1 ChemSpiderOD_getCompoundFromCSID_fst [of water_web "Some ''937''"] by metis
    moreover have "\<forall>l. fst (ChemSpiderOD_getCompoundFromCSID water_web (Some ''140526'') l) =
                Inr (water_chemspider ''140526'')"
      using d2 ChemSpiderOD_getCompoundFromCSID_fst [of water_web "Some ''140526''"] by metis
    ultimately show ?thesis by simp
  qed
  from C4_ChemSpiderOD_all_ids
         [of water_web "''water''" water_csids "[''937'', ''140526'']"
             "[water_chemspider ''937'', water_chemspider ''140526'']" "[]"]
       h1 h2 h3
  show ?thesis by simp
qed

text \<open>
  Without the condition on the detail steps the statement of C4 does not hold: on a remote
  side that answers the search with the ids 937, 938 and 939 and does not answer the
  request for the record of 938, \<^verbatim>\<open>ChemSpiderOD.search\<close> requests the records of 937
  and 938 only and then raises what the transport raised; no list is returned.
\<close>

theorem C4_ChemSpiderOD_detail_fails:
  "flaky_web (ChemSpiderOD_search_url ''water'') = Inr three_csids \<and>
   map etext (children three_csids) = map Some [''937'', ''938'', ''939''] \<and>
   ChemSpiderOD_search flaky_web ''water'' [] =
     (Inl (RemoteError (ChemSpiderOD_api_url ''938'')),
      [ChemSpiderOD_search_url ''water'', ChemSpiderOD_api_url ''937'',
       ChemSpiderOD_api_url ''938''])"
  by code_simp

text \<open>
  Claim C5. For every query, when the search response of a backend has no element below
  its root, the search of that backend returns the empty list and its only request is the
  search itself; this holds for \<^verbatim>\<open>PubChem.search\<close> and for
  \<^verbatim>\<open>ChemSpiderOD.search\<close>.
\<close>

theorem C5_no_ids_no_detail:
  "(w (PubChem_search_url query) = Inr root \<and> children root = [] \<longrightarrow>
      PubChem_search w query log = (Inr [], log @ [PubChem_search_url query])) \<and>
   (w (ChemSpiderOD_search_url query) = Inr root' \<and> children root' = [] \<longrightarrow>
      ChemSpiderOD_search w query log = (Inr [], log @ [ChemSpiderOD_search_url query]))"
  by (simp add: PubChem_search_def ChemSpiderOD_search_def fetch_def)

theorem C5_no_ids_no_detail_witness:
  "empty_web ''xyz'' (PubChem_search_url ''xyz'') = Inr no_cids \<and> children no_cids = [] \<and>
   PubChem_search (empty_web ''xyz'') ''xyz'' [] = (Inr [], [PubChem_search_url ''xyz'']) \<and>
   empty_web ''xyz'' (ChemSpiderOD_search_url ''xyz'') = Inr no_csids \<and>
   children no_csids = [] \<and>
   ChemSpiderOD_search (empty_web ''xyz'') ''xyz'' [] =
     (Inr [], [ChemSpiderOD_search_url ''xyz''])"
proof -
  have h1: "empty_web ''xyz'' (PubChem_search_url ''xyz'') = Inr no_cids"
    by code_simp
  have h2: "empty_web ''xyz'' (ChemSpiderOD_search_url ''xyz'') = Inr no_csids"
    by code_simp
  have h3: "children no_cids = []" "children no_csids = []"
    by (simp_all add: no_cids_def no_csids_def)
  from C5_no_ids_no_detail [of "empty_web ''xyz''" "''xyz''" no_cids "[]" no_csids] h1 h2 h3
  show ?thesis by simp
qed

section \<open>The coordinator: the flag\<close>





section \<open>The backends: detail records with missing fields\<close>

text \<open>
  The detail function of ChemSpider returns a record for every payload that parses, and a
  field whose tag does not occur among the children of the root keeps the value it had.
\<close>

lemma ChemSpiderOD_getCompoundFromCSID_returns:
  "w (ChemSpiderOD_api_url c) = Inr root \<Longrightarrow>
   ChemSpiderOD_getCompoundFromCSID w (Some c) log =
     (Inr (ChemSpiderOD_fields (children root) (Compound_init\<lparr>database := ChemSpiderOD_name\<rparr>)),
      log @ [ChemSpiderOD_api_url c])"
  by (simp add: ChemSpiderOD_getCompoundFromCSID_def fetch_def)

lemma ChemSpiderOD_fields_unmatched:
  "(chemspider ''SMILES'' \<notin> tag ` set cs \<longrightarrow>
      smiles (ChemSpiderOD_fields cs compound) = smiles compound) \<and>
   (chemspider ''CSID'' \<notin> tag ` set cs \<longrightarrow>
      csid (ChemSpiderOD_fields cs compound) = csid compound) \<and>
   (chemspider ''MolecularWeight'' \<notin> tag ` set cs \<longrightarrow>
      molWeight (ChemSpiderOD_fields cs compound) = molWeight compound) \<and>
   (chemspider ''CommonName'' \<notin> tag ` set cs \<longrightarrow>
      name (ChemSpiderOD_fields cs compound) = name compound)"
  by (induction cs arbitrary: compound) (auto simp: ChemSpiderOD_field_def)

text \<open>
  Claim C6. A detail payload that parses but lacks the expected fields should give a
  record whose unmatched fields keep their default. For PubChem this fails: for a
  \<^verbatim>\<open>PC-InfoData\<close> node without a \<^verbatim>\<open>PC-Urn_label\<close> below it, \<^verbatim>\<open>label\<close> stays
  \<^verbatim>\<open>None\<close> and \<^verbatim>\<open>label.text\<close> raises \<^verbatim>\<open>AttributeError\<close>, which ends the detail
  function, the search of the backend and the search of the coordinator.
\<close>

theorem C6_PubChem_missing_label_raises:
  "unlabelled_web (PubChem_record_url ''962'') = Inr unlabelled_record \<and>
   PubChem_getCompoundFromCID unlabelled_web (Some ''962'') [] =
     (Inl (AttributeError ''text''), [PubChem_record_url ''962'']) \<and>
   fst (PubChem_search unlabelled_web ''water'' []) = Inl (AttributeError ''text'') \<and>
   fst (ChemInfo_search (ChemInfo_getOnlineDatabases unlabelled_web) ''water'' False []) =
     Inl (AttributeError ''text'')"
  by code_simp

section \<open>The command line program\<close>

text \<open>
  Claim C7. For a name for which the coordinator returns no record, the program should
  print a line that names the search term and go on with the remaining names. It does
  not: for the names \<^verbatim>\<open>xyz,water\<close>, where the search for \<^verbatim>\<open>xyz\<close> returns the empty
  list, the run ends with \<^verbatim>\<open>NameError\<close> for the undefined name \<^verbatim>\<open>odb\<close>, nothing has
  been printed, and \<^verbatim>\<open>water\<close> is never searched.
\<close>

theorem C7_no_result_raises_NameError:
  "fst (ChemInfo_search (ChemInfo_getOnlineDatabases mixed_web) ''xyz'' True []) = Inr [] \<and>
   fst (main mixed_web (Inr [(''-n'', ''xyz,water'')]) sys0) = Raised (NameError ''odb'') \<and>
   stdout (snd (main mixed_web (Inr [(''-n'', ''xyz,water'')]) sys0)) = [] \<and>
   requests (snd (main mixed_web (Inr [(''-n'', ''xyz,water'')]) sys0)) =
     [PubChem_search_url ''xyz'', ChemSpiderOD_search_url ''xyz'']"
  by code_simp

text \<open>
  Claim C8. Each backend should percent-encode the query before it puts it into the
  search URL. \<^verbatim>\<open>ChemSpiderOD.search\<close> does; \<^verbatim>\<open>PubChem.search\<close> does not: for the
  query \<^verbatim>\<open>acetic acid\<close> it requests a URL that contains the space as it is.
\<close>

theorem C8_PubChem_url_not_quoted:
  "quote ''acetic acid'' = ''acetic%20acid'' \<and>
   PubChem_search (stub []) ''acetic acid'' [] =
     (Inl (RemoteError
        ''http://pubchem.ncbi.nlm.nih.gov/rest/pug/compound/name/acetic acid/cids/XML''),
      [''http://pubchem.ncbi.nlm.nih.gov/rest/pug/compound/name/acetic acid/cids/XML'']) \<and>
   ChemSpiderOD_search (stub []) ''acetic acid'' [] =
     (Inl (RemoteError
        ''http://www.chemspider.com/Search.asmx/SimpleSearch?query=acetic%20acid&token=''),
      [''http://www.chemspider.com/Search.asmx/SimpleSearch?query=acetic%20acid&token=''])"
  by code_simp

text \<open>
  Claim C9. When the output path exists and the force flag is not set, the step of
  \<^verbatim>\<open>main\<close> that writes the output returns with the file system as it was, nothing
  changed but the refusal that has been printed; the records are only read.
\<close>

theorem C9_existing_file_refused:
  assumes "files st path \<noteq> None" and "\<not> force"
  shows "main_output (Some path) force compounds st =
           (Returned,
            st\<lparr>stdout := stdout st @ ''The file already exist. I won't write any data.'' @
                            [CHR 0x0A]\<rparr>) \<and>
         files (snd (main_output (Some path) force compounds st)) = files st"
  using assms by (simp add: main_output_def print_def)

theorem C9_existing_file_refused_witness:
  "files sys1 ''out.txt'' \<noteq> None \<and> \<not> False \<and>
   main_output (Some ''out.txt'') False [water_pubchem] sys1 =
     (Returned,
      sys1\<lparr>stdout := stdout sys1 @ ''The file already exist. I won't write any data.'' @
                        [CHR 0x0A]\<rparr>) \<and>
   files (snd (main_output (Some ''out.txt'') False [water_pubchem] sys1)) ''out.txt'' =
     Some (File ''old'')"
proof -
  have h: "files sys1 ''out.txt'' \<noteq> None"
    by (simp add: sys1_def)
  have f: "files sys1 ''out.txt'' = Some (File ''old'')"
    by (simp add: sys1_def)
  from C9_existing_file_refused [OF h, of False "[water_pubchem]"] h f
  show ?thesis by simp
qed

section \<open>The database field of the records\<close>

lemma PubChem_prop_keeps:
  "PubChem_prop child compound = Inr compound' \<Longrightarrow>
   database compound' = database compound \<and> csid compound' = csid compound"
  by (auto simp: PubChem_prop_def Let_def split: sum.splits if_splits)

lemma PubChem_props_keeps:
  "PubChem_props props compound = Inr compound' \<Longrightarrow>
   database compound' = database compound \<and> csid compound' = csid compound"
proof (induction props arbitrary: compound)
  case Nil
  then show ?case by simp
next
  case (Cons child props)
  then show ?case
    by (auto split: sum.splits dest!: PubChem_prop_keeps)
qed

lemma PubChem_getCompoundFromCID_keeps:
  "fst (PubChem_getCompoundFromCID w (Some cid) log) = Inr compound \<Longrightarrow>
   database compound = ''PubChem'' \<and> csid compound = Some cid"
  by (auto simp: PubChem_getCompoundFromCID_def fetch_def Let_def PubChem_name_def
        split: sum.splits dest!: PubChem_props_keeps)

lemma ChemSpiderOD_fields_database:
  "database (ChemSpiderOD_fields cs compound) = database compound"
  by (induction cs arbitrary: compound) (simp_all add: ChemSpiderOD_field_def)

lemma ChemSpiderOD_getCompoundFromCSID_database:
  "fst (ChemSpiderOD_getCompoundFromCSID w cs log) = Inr compound \<Longrightarrow>
   database compound = ''ChemSpider''"
  by (auto simp: ChemSpiderOD_getCompoundFromCSID_def fetch_def Let_def ChemSpiderOD_name_def
        ChemSpiderOD_fields_database split: sum.splits option.splits)

lemma ChemSpiderOD_collect_database:
  "fst (ChemSpiderOD_collect w cs acc log) = Inr rs \<Longrightarrow>
   \<forall>c\<in>set acc. database c = ''ChemSpider'' \<Longrightarrow>
   \<forall>c\<in>set rs. database c = ''ChemSpider''"
proof (induction cs arbitrary: acc log)
  case Nil
  then show ?case by simp
next
  case (Cons child rest)
  show ?case
  proof (cases "ChemSpiderOD_getCompoundFromCSID w (etext child) log")
    case (Pair res log1)
    show ?thesis
    proof (cases res)
      case (Inl e)
      with Pair Cons.prems(1) show ?thesis by simp
    next
      case (Inr compound)
      with Pair have "database compound = ''ChemSpider''"
        using ChemSpiderOD_getCompoundFromCSID_database [of w "etext child" log compound]
        by simp
      with Cons.prems(2) have acc: "\<forall>c\<in>set (acc @ [compound]). database c = ''ChemSpider''"
        by simp
      from Cons.prems(1) Pair Inr
      have "fst (ChemSpiderOD_collect w rest (acc @ [compound]) log1) = Inr rs" by simp
      from Cons.IH [OF this acc] show ?thesis .
    qed
  qed
qed

text \<open>
  Claim C10. Every record in the list that \<^verbatim>\<open>PubChem.search\<close> returns has the database
  \<^verbatim>\<open>PubChem\<close>, and its \<^verbatim>\<open>csid\<close> is the id whose detail record was requested, the
  last id of the search response; every record in the list that
  \<^verbatim>\<open>ChemSpiderOD.search\<close> returns has the database \<^verbatim>\<open>ChemSpider\<close>.
\<close>

theorem C10_database_field:
  "(fst (PubChem_search w query log) = Inr cs \<longrightarrow>
      (\<forall>c\<in>set cs. database c = ''PubChem'' \<and>
         (\<exists>root cid. w (PubChem_search_url query) = Inr root \<and> children root \<noteq> [] \<and>
            etext (last (children root)) = Some cid \<and> csid c = Some cid \<and>
            snd (PubChem_search w query log) =
              log @ [PubChem_search_url query, PubChem_record_url cid]))) \<and>
   (fst (ChemSpiderOD_search w query log) = Inr cs' \<longrightarrow>
      (\<forall>c\<in>set cs'. database c = ''ChemSpider''))"
proof (rule conjI; rule impI; rule ballI)
  fix c
  assume ok: "fst (PubChem_search w query log) = Inr cs" and c: "c \<in> set cs"
  from ok obtain root where root: "w (PubChem_search_url query) = Inr root"
    by (cases "w (PubChem_search_url query)") (auto simp: PubChem_search_def fetch_def)
  have ne: "children root \<noteq> []"
    using ok c root by (auto simp: PubChem_search_def fetch_def)
  then obtain xs x where split: "children root = xs @ [x]"
    by (metis rev_exhaust)
  let ?l1 = "log @ [PubChem_search_url query]"
  have run: "PubChem_search w query log =
      (case PubChem_getCompoundFromCID w (etext x) ?l1 of
         (Inl e, log2) \<Rightarrow> (Inl e, log2)
       | (Inr compound, log2) \<Rightarrow> (Inr [compound], log2))"
    using PubChem_search_last [of w query root xs x log] root split by simp
  obtain cid where cid: "etext x = Some cid"
    using ok run by (cases "etext x") (auto simp: PubChem_getCompoundFromCID_def)
  obtain res log2 where d: "PubChem_getCompoundFromCID w (Some cid) ?l1 = (res, log2)"
    by (cases "PubChem_getCompoundFromCID w (Some cid) ?l1") auto
  with ok run cid c have res: "res = Inr c"
    by (auto split: sum.splits)
  from d res have "fst (PubChem_getCompoundFromCID w (Some cid) ?l1) = Inr c" by simp
  then have keeps: "database c = ''PubChem'' \<and> csid c = Some cid"
    by (rule PubChem_getCompoundFromCID_keeps)
  have "log2 = ?l1 @ [PubChem_record_url cid]"
    using d PubChem_getCompoundFromCID_log [of w cid ?l1] by simp
  then have "snd (PubChem_search w query log) =
               log @ [PubChem_search_url query, PubChem_record_url cid]"
    using run cid d res by simp
  with keeps root ne split cid
  show "database c = ''PubChem'' \<and>
         (\<exists>root cid. w (PubChem_search_url query) = Inr root \<and> children root \<noteq> [] \<and>
            etext (last (children root)) = Some cid \<and> csid c = Some cid \<and>
            snd (PubChem_search w query log) =
              log @ [PubChem_search_url query, PubChem_record_url cid])"
    by auto
next
  fix c
  assume ok: "fst (ChemSpiderOD_search w query log) = Inr cs'" and c: "c \<in> set cs'"
  from ok obtain root where root: "w (ChemSpiderOD_search_url query) = Inr root"
    by (cases "w (ChemSpiderOD_search_url query)")
       (auto simp: ChemSpiderOD_search_def fetch_def)
  with ok have "fst (ChemSpiderOD_collect w (children root) []
                       (log @ [ChemSpiderOD_search_url query])) = Inr cs'"
    by (simp add: ChemSpiderOD_search_def fetch_def)
  from ChemSpiderOD_collect_database [OF this] c show "database c = ''ChemSpider''" by simp
qed

theorem C10_database_field_witness:
  "fst (PubChem_search water_web ''water'' []) = Inr [water_pubchem] \<and>
   database water_pubchem = ''PubChem'' \<and> csid water_pubchem = Some ''962'' \<and>
   snd (PubChem_search water_web ''water'' []) =
     [PubChem_search_url ''water'', PubChem_record_url ''962''] \<and>
   fst (ChemSpiderOD_search water_web ''water'' []) =
     Inr [water_chemspider ''937'', water_chemspider ''140526''] \<and>
   database (water_chemspider ''937'') = ''ChemSpider'' \<and>
   database (water_chemspider ''140526'') = ''ChemSpider''"
proof -
  have h1: "fst (PubChem_search water_web ''water'' []) = Inr [water_pubchem]"
    by code_simp
  have h2: "fst (ChemSpiderOD_search water_web ''water'' []) =
              Inr [water_chemspider ''937'', water_chemspider ''140526'']"
    by code_simp
  have h3: "water_web (PubChem_search_url ''water'') = Inr water_cids"
    by code_simp
  have h4: "etext (last (children water_cids)) = Some ''962''"
    by (simp add: water_cids_def)
  from C10_database_field
         [of water_web "''water''" "[]" "[water_pubchem]"
             "[water_chemspider ''937'', water_chemspider ''140526'']"]
       h1 h2 h3 h4
  show ?thesis by auto
qed

end
